theory Spec2Isabelle
  imports Main
begin

section \<open>Python values, strings and exceptions\<close>

text \<open>
  Strings are lists of code points below 256. A value that may be \<^verbatim>\<open>None\<close> or a
  \<^verbatim>\<open>str\<close> (an \<^verbatim>\<open>Optional[str]\<close>) is a \<open>string option\<close>. The dynamically typed
  values that can sit under the \<^verbatim>\<open>"text"\<close> key of a content part are a small datatype.
\<close>

type_synonym pyarg = "string option"

datatype pyval = PyNone | PyStr string | PyInt int | PyList "pyval list"

text \<open>Python truthiness, as used by \<^verbatim>\<open>if t\<close>.\<close>

fun truthy :: "pyval \<Rightarrow> bool" where
  "truthy PyNone = False"
| "truthy (PyStr s) = (s \<noteq> [])"
| "truthy (PyInt i) = (i \<noteq> 0)"
| "truthy (PyList vs) = (vs \<noteq> [])"

fun type_name :: "pyval \<Rightarrow> string" where
  "type_name PyNone = ''NoneType''"
| "type_name (PyStr s) = ''str''"
| "type_name (PyInt i) = ''int''"
| "type_name (PyList vs) = ''list''"

text \<open>
  Instances of \<^verbatim>\<open>Exception\<close>: the repository's own \<^verbatim>\<open>LLMServiceError\<close> (its message and
  the cause chained by \<^verbatim>\<open>raise ... from exc\<close>), the built-in errors the code can run
  into, and whatever the provider client raises.
\<close>

datatype exn =
    LLMServiceError string "exn option"
  | TypeError string
  | IndexError string
  | ProviderError string

text \<open>\<^verbatim>\<open>str(error)\<close>: the message the exception was built with.\<close>

fun exn_str :: "exn \<Rightarrow> string" where
  "exn_str (LLMServiceError m c) = m"
| "exn_str (TypeError m) = m"
| "exn_str (IndexError m) = m"
| "exn_str (ProviderError m) = m"

text \<open>\<^verbatim>\<open>isinstance(exc, LLMServiceError)\<close>\<close>

fun is_service_error :: "exn \<Rightarrow> bool" where
  "is_service_error (LLMServiceError m c) = True"
| "is_service_error exc = False"

text \<open>
  The source has one error class and tells the three failures of the service apart by
  their message only; these are the three \<^verbatim>\<open>raise\<close> forms of \<^verbatim>\<open>_call_llm\<close>.
\<close>

abbreviation CallFailed :: "exn \<Rightarrow> exn" where
  "CallFailed cause \<equiv> LLMServiceError ''Failed to call LLM via OpenRouter'' (Some cause)"

abbreviation EmptyResponse :: exn where
  "EmptyResponse \<equiv> LLMServiceError ''Empty response from LLM'' None"

abbreviation MalformedResponse :: "exn \<Rightarrow> exn" where
  "MalformedResponse cause \<equiv> LLMServiceError ''Unexpected LLM response structure'' (Some cause)"

text \<open>Decimal rendering of a number, for the messages of the built-in errors.\<close>

fun show_nat :: "nat \<Rightarrow> string" where
  "show_nat n =
     (if n < 10 then [char_of (48 + n)]
      else show_nat (n div 10) @ [char_of (48 + n mod 10)])"

declare show_nat.simps [simp del]

text \<open>
  \<^verbatim>\<open>str.strip()\<close> removes leading and trailing whitespace; these are the code points
  below 256 for which \<^verbatim>\<open>str.isspace\<close> holds.
\<close>

definition is_space :: "char \<Rightarrow> bool" where
  "is_space c \<longleftrightarrow>
     c \<in> set [CHR 0x09, CHR 0x0A, CHR 0x0B, CHR 0x0C, CHR 0x0D,
              CHR 0x1C, CHR 0x1D, CHR 0x1E, CHR 0x1F, CHR 0x20, CHR 0x85, CHR 0xA0]"

definition py_strip :: "string \<Rightarrow> string" where
  "py_strip s = rev (dropWhile is_space (rev (dropWhile is_space s)))"

text \<open>\<^verbatim>\<open>sep.join(strings)\<close> on strings.\<close>

fun join :: "string \<Rightarrow> string list \<Rightarrow> string" where
  "join sep [] = []"
| "join sep [x] = x"
| "join sep (x # y # ys) = x @ sep @ join sep (y # ys)"

text \<open>
  \<^verbatim>\<open>sep.join(values)\<close> on dynamically typed values: the first item that is not a
  \<^verbatim>\<open>str\<close> raises \<^verbatim>\<open>TypeError\<close>, with its index and type name.
\<close>

fun as_strs :: "nat \<Rightarrow> pyval list \<Rightarrow> exn + string list" where
  "as_strs i [] = Inr []"
| "as_strs i (PyStr s # vs) =
     (case as_strs (Suc i) vs of Inl e \<Rightarrow> Inl e | Inr ss \<Rightarrow> Inr (s # ss))"
| "as_strs i (v # vs) =
     Inl (TypeError (''sequence item '' @ show_nat i @ '': expected str instance, ''
                     @ type_name v @ '' found''))"

definition str_join :: "string \<Rightarrow> pyval list \<Rightarrow> exn + string" where
  "str_join sep vs = (case as_strs 0 vs of Inl e \<Rightarrow> Inl e | Inr ss \<Rightarrow> Inr (join sep ss))"

section \<open>The provider's response\<close>

text \<open>
  A content part is abstracted to what the code observes of it. \<open>DictPart t s\<close> is a
  \<^verbatim>\<open>dict\<close> whose \<^verbatim>\<open>"text"\<close> key holds \<open>t\<close> (\<open>None\<close>: the key is missing) and on which
  \<^verbatim>\<open>str()\<close> gives \<open>s\<close>; \<open>OtherPart s\<close> is any part that is not a \<^verbatim>\<open>dict\<close>, on which
  \<^verbatim>\<open>str()\<close> gives \<open>s\<close>.
\<close>

datatype part = DictPart "pyval option" string | OtherPart string

text \<open>
  \<open>NoContent\<close>: the message has no \<^verbatim>\<open>content\<close> attribute, or it is \<^verbatim>\<open>None\<close>, or it is
  something that is neither a \<^verbatim>\<open>str\<close> nor a \<^verbatim>\<open>list\<close>.
\<close>

datatype content = NoContent | ContentStr string | ContentList "part list"

datatype message = Message content

datatype completion = Completion "message list"

text \<open>
  \<^verbatim>\<open>client.chat.completions.create(model=..., messages=[...])\<close>: the external
  provider, a function of the model name and of the (role, content) messages, that
  returns a completion or raises.
\<close>

type_synonym provider = "string \<Rightarrow> (string \<times> pyarg) list \<Rightarrow> exn + completion"

definition const_provider :: "exn + completion \<Rightarrow> provider" where
  "const_provider outcome = (\<lambda>model_name messages. outcome)"

section \<open>services/llm\_service.py\<close>

text \<open>
  \<^verbatim>\<open>part.get("text", "") if isinstance(part, dict) else str(part)\<close>
\<close>

fun part_text :: "part \<Rightarrow> pyval" where
  "part_text (DictPart (Some v) s) = v"
| "part_text (DictPart None s) = PyStr []"
| "part_text (OtherPart s) = PyStr s"

text \<open>
  The body of the second \<^verbatim>\<open>try\<close> of \<^verbatim>\<open>_call_llm\<close> (lines 50 to 65). \<open>Inl e\<close>: \<open>e\<close> was
  raised inside the \<^verbatim>\<open>try\<close>; \<open>Inr (Some s)\<close>: \<^verbatim>\<open>return s\<close>; \<open>Inr None\<close>: control left the
  \<^verbatim>\<open>try\<close> without returning.
\<close>

definition try_body :: "completion \<Rightarrow> exn + string option" where
  "try_body c =
     (case c of Completion choices \<Rightarrow>
        (case choices of
           [] \<Rightarrow> Inl (IndexError ''list index out of range'')
         | Message cont # rest \<Rightarrow>
             (case cont of
                ContentStr s \<Rightarrow>
                  if py_strip s \<noteq> [] then Inr (Some s) else Inl EmptyResponse
              | ContentList parts \<Rightarrow>
                  if parts \<noteq> [] then
                    (case str_join [CHR 0x0A] (filter truthy (map part_text parts)) of
                       Inl e \<Rightarrow> Inl e
                     | Inr combined \<Rightarrow>
                         if py_strip combined \<noteq> [] then Inr (Some combined) else Inr None)
                  else Inr None
              | NoContent \<Rightarrow> Inr None)))"

text \<open>
  Lines 49 to 69: the \<^verbatim>\<open>try\<close>, its \<^verbatim>\<open>except Exception\<close>, which catches whatever the body
  raised (an \<^verbatim>\<open>LLMServiceError\<close> is an \<^verbatim>\<open>Exception\<close>), and the final \<^verbatim>\<open>raise\<close>.
\<close>

definition normalize_response :: "completion \<Rightarrow> exn + string" where
  "normalize_response c =
     (case try_body c of
        Inl exc \<Rightarrow> Inl (MalformedResponse exc)
      | Inr (Some s) \<Rightarrow> Inr s
      | Inr None \<Rightarrow> Inl EmptyResponse)"

definition llm_model :: string where
  "llm_model = ''anthropic/claude-3.5-sonnet''"

definition chat_messages :: "pyarg \<Rightarrow> (string \<times> pyarg) list" where
  "chat_messages prompt =
     [(''system'', Some ''You are a helpful assistant for a tracing demo.''),
      (''user'', prompt)]"

text \<open>\<^verbatim>\<open>_call_llm\<close>, the closure over \<^verbatim>\<open>prompt\<close>.\<close>

definition call_llm :: "provider \<Rightarrow> pyarg \<Rightarrow> exn + string" where
  "call_llm provider prompt =
     (case provider llm_model (chat_messages prompt) of
        Inl exc \<Rightarrow> Inl (CallFailed exc)
      | Inr c \<Rightarrow> normalize_response c)"

text \<open>
  The traced operation: the name and kind given to \<^verbatim>\<open>@observe\<close>, the metadata
  attached by \<^verbatim>\<open>propagate_attributes\<close>, and what the call returned or raised.
\<close>

record generation =
  gen_name :: string
  gen_as_type :: string
  gen_metadata :: "(string \<times> string) list"
  gen_outcome :: "exn + string"

text \<open>
  \<^verbatim>\<open>def get_llm_response(prompt: str, request_id: Optional[str] = None) -> str\<close>
\<close>

definition get_llm_response :: "provider \<Rightarrow> pyarg \<Rightarrow> pyarg \<Rightarrow> generation" where
  "get_llm_response provider prompt rid =
     \<lparr>gen_name = ''llm-chat-completion'',
      gen_as_type = ''generation'',
      gen_metadata =
        (case rid of
           Some r \<Rightarrow> if r \<noteq> [] then [(''request_id'', r)] else []
         | None \<Rightarrow> []),
      gen_outcome = call_llm provider prompt\<rparr>"

text \<open>
  A call of \<^verbatim>\<open>get_llm_response\<close> with positional arguments: the signature has one
  required and one optional parameter, so one or two arguments bind and any other
  number raises \<^verbatim>\<open>TypeError\<close> before the body runs.
\<close>

definition call_get_llm_response :: "provider \<Rightarrow> pyarg list \<Rightarrow> exn + string" where
  "call_get_llm_response provider args =
     (case args of
        [] \<Rightarrow>
          Inl (TypeError (''get_llm_response() missing 1 required positional argument: ''
                          @ [CHR 0x27] @ ''prompt'' @ [CHR 0x27]))
      | [prompt] \<Rightarrow> gen_outcome (get_llm_response provider prompt None)
      | [prompt, rid] \<Rightarrow> gen_outcome (get_llm_response provider prompt rid)
      | _ \<Rightarrow>
          Inl (TypeError (''get_llm_response() takes from 1 to 2 positional arguments but ''
                          @ show_nat (length args) @ '' were given'')))"

section \<open>main.py\<close>

text \<open>
  The request as the code reads it: method, path, headers, and the \<^verbatim>\<open>request_id\<close>
  attribute of \<^verbatim>\<open>request.state\<close> (\<open>None\<close> while nothing has set it).
\<close>

record request =
  req_method :: string
  req_path :: string
  req_headers :: "(string \<times> string) list"
  state_request_id :: "string option"

text \<open>\<^verbatim>\<open>request.headers.get(name)\<close>\<close>

definition headers_get :: "(string \<times> string) list \<Rightarrow> string \<Rightarrow> string option" where
  "headers_get hs name = map_of hs name"

text \<open>\<^verbatim>\<open>response.headers[name] = v\<close>\<close>

fun set_header :: "(string \<times> string) list \<Rightarrow> string \<Rightarrow> string \<Rightarrow> (string \<times> string) list" where
  "set_header [] name v = [(name, v)]"
| "set_header ((k, w) # hs) name v =
     (if k = name then (k, v) # hs else (k, w) # set_header hs name v)"

datatype jval = JNull | JStr string

definition json_opt :: "string option \<Rightarrow> jval" where
  "json_opt x = (case x of None \<Rightarrow> JNull | Some s \<Rightarrow> JStr s)"

record response =
  status_code :: nat
  body :: "(string \<times> jval) list"
  resp_headers :: "(string \<times> string) list"

record ChatRequest =
  message :: string
  model :: "string option"
  session_id :: "string option"

record ChatResponse =
  response :: string
  request_id :: string

text \<open>
  \<^verbatim>\<open>add_request_id_middleware\<close>. \<open>fresh_uuid\<close> is the string \<^verbatim>\<open>str(uuid4())\<close> gives when
  it is evaluated. The middleware mutates \<^verbatim>\<open>request.state\<close>, so the request comes back
  with the result; \<open>call_next\<close> returns, beside the response or the exception, whatever
  the inner layers recorded. An exception of \<open>call_next\<close> passes through: line 45 is
  not reached.
\<close>

definition add_request_id_middleware ::
  "string \<Rightarrow> request \<Rightarrow> (request \<Rightarrow> 't \<times> (exn + response))
     \<Rightarrow> request \<times> 't \<times> (exn + response)" where
  "add_request_id_middleware fresh_uuid req call_next =
     (let header_request_id = headers_get (req_headers req) ''X-Request-ID'';
          rid = (case header_request_id of
                   Some h \<Rightarrow> if h \<noteq> [] then h else fresh_uuid
                 | None \<Rightarrow> fresh_uuid);
          req' = req\<lparr>state_request_id := Some rid\<rparr>;
          (t, r) = call_next req'
      in (req', t,
          case r of
            Inl exc \<Rightarrow> Inl exc
          | Inr resp \<Rightarrow>
              Inr (resp\<lparr>resp_headers := set_header (resp_headers resp) ''X-Request-ID'' rid\<rparr>)))"

text \<open>
  Line 69: \<^verbatim>\<open>payload.session_id or request.headers.get("X-Session-ID")\<close>
\<close>

definition resolve_session_id :: "ChatRequest \<Rightarrow> request \<Rightarrow> string option" where
  "resolve_session_id payload req =
     (case session_id payload of
        Some s \<Rightarrow> if s \<noteq> [] then Some s else headers_get (req_headers req) ''X-Session-ID''
      | None \<Rightarrow> headers_get (req_headers req) ''X-Session-ID'')"

text \<open>
  Line 68, \<^verbatim>\<open>getattr(request.state, "request_id", str(uuid4()))\<close>, and the positional
  arguments of lines 72 to 78.
\<close>

definition endpoint_request_id :: "string \<Rightarrow> request \<Rightarrow> string" where
  "endpoint_request_id fresh_uuid req =
     (case state_request_id req of Some r \<Rightarrow> r | None \<Rightarrow> fresh_uuid)"

definition dispatch_args :: "string \<Rightarrow> ChatRequest \<Rightarrow> request \<Rightarrow> pyarg list" where
  "dispatch_args fresh_uuid payload req =
     [Some (message payload), Some (endpoint_request_id fresh_uuid req),
      resolve_session_id payload req, model payload]"

text \<open>\<^verbatim>\<open>chat_endpoint\<close>\<close>

definition chat_endpoint ::
  "provider \<Rightarrow> string \<Rightarrow> ChatRequest \<Rightarrow> request \<Rightarrow> exn + ChatResponse" where
  "chat_endpoint provider fresh_uuid payload req =
     (case call_get_llm_response provider (dispatch_args fresh_uuid payload req) of
        Inl exc \<Rightarrow> Inl exc
      | Inr llm_response \<Rightarrow>
          Inr \<lparr>response = llm_response, request_id = endpoint_request_id fresh_uuid req\<rparr>)"

text \<open>
  A span of the tracing client, with the fields \<^verbatim>\<open>_record_error_span\<close> passes to
  \<^verbatim>\<open>start_as_current_span\<close>.
\<close>

record span =
  span_name :: string
  span_input :: "(string \<times> jval) list"
  span_metadata :: "(string \<times> jval) list"
  span_level :: string
  span_status_message :: string

datatype langfuse = Langfuse

text \<open>
  \<^verbatim>\<open>_record_error_span\<close>, given the module's \<^verbatim>\<open>langfuse_client\<close>; its effect is the list
  of spans it opens.
\<close>

definition record_error_span :: "langfuse option \<Rightarrow> request \<Rightarrow> exn \<Rightarrow> string \<Rightarrow> span list" where
  "record_error_span langfuse_client req error error_type =
     (case langfuse_client of
        None \<Rightarrow> []
      | Some client \<Rightarrow>
          [\<lparr>span_name = error_type,
            span_input =
              [(''path'', JStr (req_path req)),
               (''method'', JStr (req_method req)),
               (''request_id'', json_opt (state_request_id req))],
            span_metadata =
              [(''error'', JStr (exn_str error)),
               (''error_type'', JStr error_type)],
            span_level = ''error'',
            span_status_message = ''error''\<rparr>])"

definition llm_service_exception_handler ::
  "langfuse option \<Rightarrow> request \<Rightarrow> exn \<Rightarrow> span list \<times> response" where
  "llm_service_exception_handler langfuse_client req exc =
     (record_error_span langfuse_client req exc ''LLMServiceError'',
      \<lparr>status_code = 500,
       body = [(''detail'', JStr ''An error occurred while calling the LLM.''),
               (''request_id'', json_opt (state_request_id req))],
       resp_headers = []\<rparr>)"

definition generic_exception_handler ::
  "langfuse option \<Rightarrow> request \<Rightarrow> exn \<Rightarrow> span list \<times> response" where
  "generic_exception_handler langfuse_client req exc =
     (record_error_span langfuse_client req exc ''UnhandledException'',
      \<lparr>status_code = 500,
       body = [(''detail'', JStr ''Internal server error.''),
               (''request_id'', json_opt (state_request_id req))],
       resp_headers = []\<rparr>)"

section \<open>The application assembled by the decorators\<close>

text \<open>
  \<^verbatim>\<open>@app.post("/chat", response_model=ChatResponse)\<close>: the value the endpoint returns
  is sent as a 200 response with the two fields of \<^verbatim>\<open>ChatResponse\<close>.
\<close>

definition chat_route :: "provider \<Rightarrow> string \<Rightarrow> ChatRequest \<Rightarrow> request \<Rightarrow> exn + response" where
  "chat_route provider fresh_uuid payload req =
     (case chat_endpoint provider fresh_uuid payload req of
        Inl exc \<Rightarrow> Inl exc
      | Inr cr \<Rightarrow>
          Inr \<lparr>status_code = 200,
               body = [(''response'', JStr (response cr)),
                       (''request_id'', JStr (request_id cr))],
               resp_headers = []\<rparr>)"

text \<open>
  \<^verbatim>\<open>@app.exception_handler(LLMServiceError)\<close>: the framework runs a handler registered
  for an exception class other than \<^verbatim>\<open>Exception\<close> around the route, inside the
  \<^verbatim>\<open>http\<close> middleware; an exception of another class passes through.
\<close>

definition exception_layer ::
  "langfuse option \<Rightarrow> (request \<Rightarrow> exn + response) \<Rightarrow> request \<Rightarrow> span list \<times> (exn + response)" where
  "exception_layer langfuse_client route req =
     (case route req of
        Inr resp \<Rightarrow> ([], Inr resp)
      | Inl exc \<Rightarrow>
          (case exc of
             LLMServiceError m c \<Rightarrow>
               (let (spans, resp) = llm_service_exception_handler langfuse_client req exc
                in (spans, Inr resp))
           | _ \<Rightarrow> ([], Inl exc)))"

text \<open>
  \<^verbatim>\<open>@app.exception_handler(Exception)\<close>: the framework runs the handler registered for
  \<^verbatim>\<open>Exception\<close> in its outermost layer, around the \<^verbatim>\<open>http\<close> middleware, on the request
  whose state the middleware has set; its response goes to the caller as it is.
  The CORS layer, which only adds headers of its own, is left out.
  \<open>fresh_mw\<close> and \<open>fresh_ep\<close> are the values of the two \<^verbatim>\<open>str(uuid4())\<close>.
\<close>

definition app ::
  "langfuse option \<Rightarrow> provider \<Rightarrow> string \<Rightarrow> string \<Rightarrow> ChatRequest \<Rightarrow> request
     \<Rightarrow> span list \<times> response" where
  "app langfuse_client provider fresh_mw fresh_ep payload req =
     (let (req', spans, r) =
            add_request_id_middleware fresh_mw req
              (exception_layer langfuse_client (chat_route provider fresh_ep payload))
      in case r of
           Inr resp \<Rightarrow> (spans, resp)
         | Inl exc \<Rightarrow>
             (let (spans', resp) = generic_exception_handler langfuse_client req' exc
              in (spans @ spans', resp)))"

text \<open>
  The same layers around any route: the handler of \<^verbatim>\<open>LLMServiceError\<close> around the
  route, the \<^verbatim>\<open>http\<close> middleware around that, the handler of \<^verbatim>\<open>Exception\<close> outermost.
  \<open>app\<close> is these layers around \<open>chat_route\<close>.
\<close>

definition boundary ::
  "langfuse option \<Rightarrow> string \<Rightarrow> (request \<Rightarrow> exn + response) \<Rightarrow> request
     \<Rightarrow> span list \<times> response" where
  "boundary langfuse_client fresh_mw route req =
     (let (req', spans, r) =
            add_request_id_middleware fresh_mw req (exception_layer langfuse_client route)
      in case r of
           Inr resp \<Rightarrow> (spans, resp)
         | Inl exc \<Rightarrow>
             (let (spans', resp) = generic_exception_handler langfuse_client req' exc
              in (spans @ spans', resp)))"

section \<open>The specification's wording, for comparison\<close>

text \<open>
  The specification's extraction of a part's text: the text field of the part, and
  the string conversion of the whole part when it has no text field.
\<close>

fun spec_part_text :: "part \<Rightarrow> pyval" where
  "spec_part_text (DictPart (Some v) s) = v"
| "spec_part_text (DictPart None s) = PyStr s"
| "spec_part_text (OtherPart s) = PyStr s"

text \<open>
  The specification's normalisation of a sequence of parts: the non-empty extracted
  texts joined by newlines, returned when not blank, \<open>EmptyResponse\<close> otherwise.
\<close>

definition spec_normalize_parts :: "part list \<Rightarrow> exn + string" where
  "spec_normalize_parts parts =
     (case str_join [CHR 0x0A] (filter truthy (map spec_part_text parts)) of
        Inl e \<Rightarrow> Inl (MalformedResponse e)
      | Inr combined \<Rightarrow>
          if py_strip combined \<noteq> [] then Inr combined else Inl EmptyResponse)"

text \<open>
  The text a part contributes, as a string: the text field of a \<^verbatim>\<open>dict\<close> (nothing
  when the key is missing or holds a falsy value), the string conversion of any other
  part.
\<close>

fun part_string :: "part \<Rightarrow> string" where
  "part_string (DictPart (Some (PyStr t)) s) = t"
| "part_string (DictPart x s) = []"
| "part_string (OtherPart s) = s"

text \<open>A part whose text field, when it has one, holds a string or a falsy value.\<close>

fun text_ok :: "part \<Rightarrow> bool" where
  "text_ok (DictPart (Some (PyStr t)) s) = True"
| "text_ok (DictPart (Some v) s) = (\<not> truthy v)"
| "text_ok (DictPart None s) = True"
| "text_ok (OtherPart s) = True"

text \<open>
  The specification's session precedence: the field of the body if supplied, else the
  header, else absent.
\<close>

definition spec_resolve_session_id :: "ChatRequest \<Rightarrow> request \<Rightarrow> string option" where
  "spec_resolve_session_id payload req =
     (case session_id payload of
        Some s \<Rightarrow> Some s
      | None \<Rightarrow> headers_get (req_headers req) ''X-Session-ID'')"

text \<open>A header of the response a layer returned; none when the layer raised.\<close>

definition response_header :: "string \<Rightarrow> exn + response \<Rightarrow> string option" where
  "response_header name r =
     (case r of Inl exc \<Rightarrow> None | Inr resp \<Rightarrow> headers_get (resp_headers resp) name)"

text \<open>An inner layer that answers every request with the same outcome.\<close>

definition const_next :: "exn + response \<Rightarrow> request \<Rightarrow> unit \<times> (exn + response)" where
  "const_next r req = ((), r)"

text \<open>A route that ends every request with the same outcome.\<close>

definition const_route :: "exn + response \<Rightarrow> request \<Rightarrow> exn + response" where
  "const_route r req = r"

section \<open>Auxiliary facts\<close>

lemma show_nat_4: "show_nat 4 = ''4''"
  by code_simp

lemma call_with_four_arguments:
  "call_get_llm_response provider [a, b, c, d] =
     Inl (TypeError ''get_llm_response() takes from 1 to 2 positional arguments but 4 were given'')"
proof -
  have len: "length [a, b, c, d] = 4" by simp
  show ?thesis
    unfolding call_get_llm_response_def len show_nat_4 by simp
qed

lemma chat_endpoint_raises:
  "chat_endpoint provider fresh payload req =
     Inl (TypeError ''get_llm_response() takes from 1 to 2 positional arguments but 4 were given'')"
  by (simp add: chat_endpoint_def dispatch_args_def call_with_four_arguments)

lemma mem_dropWhile: "c \<in> set s \<Longrightarrow> \<not> P c \<Longrightarrow> c \<in> set (dropWhile P s)"
  by (induction s) auto

text \<open>A string is non-empty after trimming exactly when it has a non-space character.\<close>

lemma py_strip_blank: "py_strip s \<noteq> [] \<longleftrightarrow> (\<exists>c\<in>set s. \<not> is_space c)"
proof
  assume "py_strip s \<noteq> []"
  then have "dropWhile is_space (rev (dropWhile is_space s)) \<noteq> []"
    by (simp add: py_strip_def)
  then obtain c where c: "c \<in> set (rev (dropWhile is_space s))" "\<not> is_space c"
    by (auto simp: dropWhile_eq_Nil_conv)
  then have "c \<in> set s" by (auto dest: set_dropWhileD)
  with c show "\<exists>c\<in>set s. \<not> is_space c" by blast
next
  assume "\<exists>c\<in>set s. \<not> is_space c"
  then obtain c where c: "c \<in> set s" "\<not> is_space c" by blast
  then have "c \<in> set (rev (dropWhile is_space s))"
    by (simp add: mem_dropWhile)
  with c have "c \<in> set (dropWhile is_space (rev (dropWhile is_space s)))"
    by (rule_tac mem_dropWhile)
  then have "rev (dropWhile is_space (rev (dropWhile is_space s))) \<noteq> []"
    by (cases "dropWhile is_space (rev (dropWhile is_space s))") simp_all
  then show "py_strip s \<noteq> []"
    unfolding py_strip_def .
qed

lemma headers_get_set_header: "headers_get (set_header hs name v) name = Some v"
  by (induction hs name v rule: set_header.induct) (auto simp: headers_get_def)

lemma as_strs_strs: "as_strs i (map PyStr ss) = Inr ss"
  by (induction ss arbitrary: i) auto

lemma filter_truthy_text:
  "\<forall>p\<in>set parts. text_ok p \<Longrightarrow>
   filter truthy (map part_text parts) =
     map PyStr (filter (\<lambda>t. t \<noteq> []) (map part_string parts))"
proof (induction parts)
  case Nil
  then show ?case by simp
next
  case (Cons p ps)
  then show ?case
    by (cases p rule: part_string.cases) auto
qed

text \<open>What the normaliser does on string content and on absent content.\<close>

lemma normalize_str_verbatim:
  "py_strip s \<noteq> [] \<Longrightarrow>
   normalize_response (Completion (Message (ContentStr s) # rest)) = Inr s"
  by (simp add: normalize_response_def try_body_def)

lemma normalize_str_blank:
  "py_strip s = [] \<Longrightarrow>
   normalize_response (Completion (Message (ContentStr s) # rest)) =
     Inl (MalformedResponse EmptyResponse)"
  by (simp add: normalize_response_def try_body_def)

lemma normalize_absent:
  "normalize_response (Completion (Message NoContent # rest)) = Inl EmptyResponse"
  by (simp add: normalize_response_def try_body_def)

lemma show_nat_0: "show_nat 0 = ''0''"
  by code_simp

text \<open>A truthy text field that is not a string makes \<^verbatim>\<open>join\<close> raise inside the \<^verbatim>\<open>try\<close>.\<close>

lemma normalize_non_string_text:
  "normalize_response (Completion [Message (ContentList [DictPart (Some (PyInt 5)) ''{'text': 5}''])])
     = Inl (MalformedResponse (TypeError ''sequence item 0: expected str instance, int found''))"
  by (simp add: normalize_response_def try_body_def str_join_def show_nat_0)

lemma normalize_no_choices:
  "normalize_response (Completion []) =
     Inl (MalformedResponse (IndexError ''list index out of range''))"
  by (simp add: normalize_response_def try_body_def)

text \<open>The middleware, with its request id named.\<close>

lemma middleware_result:
  assumes "rid = (case headers_get (req_headers req) ''X-Request-ID'' of
               Some h \<Rightarrow> if h \<noteq> [] then h else fresh | None \<Rightarrow> fresh)"
  shows "add_request_id_middleware fresh req call_next =
     (req\<lparr>state_request_id := Some rid\<rparr>,
      fst (call_next (req\<lparr>state_request_id := Some rid\<rparr>)),
      (case snd (call_next (req\<lparr>state_request_id := Some rid\<rparr>)) of
         Inl exc \<Rightarrow> Inl exc
       | Inr resp \<Rightarrow>
           Inr (resp\<lparr>resp_headers := set_header (resp_headers resp) ''X-Request-ID'' rid\<rparr>)))"
  unfolding assms add_request_id_middleware_def
  by (simp add: Let_def split: prod.split)

text \<open>The application is the boundary around the chat route.\<close>

lemma app_boundary:
  "app langfuse_client provider fresh_mw fresh_ep payload req =
     boundary langfuse_client fresh_mw (chat_route provider fresh_ep payload) req"
  by (simp add: app_def boundary_def)

text \<open>
  A route that raises a service error: the handler of service errors answers inside
  the middleware, which puts the request id on its response.
\<close>

lemma boundary_service_error:
  assumes "rid0 = (case headers_get (req_headers req) ''X-Request-ID'' of
               Some h \<Rightarrow> if h \<noteq> [] then h else fresh | None \<Rightarrow> fresh)"
    and "route (req\<lparr>state_request_id := Some rid0\<rparr>) = Inl (LLMServiceError m c)"
  shows "boundary langfuse_client fresh route req =
     (record_error_span langfuse_client (req\<lparr>state_request_id := Some rid0\<rparr>)
        (LLMServiceError m c) ''LLMServiceError'',
      \<lparr>status_code = 500,
       body = [(''detail'', JStr ''An error occurred while calling the LLM.''),
               (''request_id'', JStr rid0)],
       resp_headers = [(''X-Request-ID'', rid0)]\<rparr>)"
  unfolding boundary_def middleware_result [OF assms(1)]
  by (simp add: exception_layer_def assms(2) llm_service_exception_handler_def json_opt_def)

text \<open>
  A route that raises anything else: the exception passes the inner handler and the
  middleware, and the catch-all handler answers.
\<close>

lemma boundary_unexpected:
  assumes "rid0 = (case headers_get (req_headers req) ''X-Request-ID'' of
               Some h \<Rightarrow> if h \<noteq> [] then h else fresh | None \<Rightarrow> fresh)"
    and "route (req\<lparr>state_request_id := Some rid0\<rparr>) = Inl exc"
    and "\<not> is_service_error exc"
  shows "boundary langfuse_client fresh route req =
     (record_error_span langfuse_client (req\<lparr>state_request_id := Some rid0\<rparr>)
        exc ''UnhandledException'',
      \<lparr>status_code = 500,
       body = [(''detail'', JStr ''Internal server error.''),
               (''request_id'', JStr rid0)],
       resp_headers = []\<rparr>)"
  unfolding boundary_def middleware_result [OF assms(1)]
  using assms(3)
  by (cases exc)
     (simp_all add: exception_layer_def assms(2) generic_exception_handler_def json_opt_def)

text \<open>
  Without a tracing client (\<^verbatim>\<open>langfuse_client is None\<close>) the recorder returns at its
  guard and opens no span.
\<close>

lemma no_client_no_span: "record_error_span None req exc error_type = []"
  by (simp add: record_error_span_def)

text \<open>The two handlers, each on its own: the span recorded and the response returned.\<close>

lemma handler_span_and_response:
  "fst (llm_service_exception_handler (Some client) req exc) =
     [\<lparr>span_name = ''LLMServiceError'',
       span_input = [(''path'', JStr (req_path req)), (''method'', JStr (req_method req)),
                     (''request_id'', json_opt (state_request_id req))],
       span_metadata = [(''error'', JStr (exn_str exc)),
                        (''error_type'', JStr ''LLMServiceError'')],
       span_level = ''error'', span_status_message = ''error''\<rparr>]
   \<and> fst (generic_exception_handler (Some client) req exc) =
     [\<lparr>span_name = ''UnhandledException'',
       span_input = [(''path'', JStr (req_path req)), (''method'', JStr (req_method req)),
                     (''request_id'', json_opt (state_request_id req))],
       span_metadata = [(''error'', JStr (exn_str exc)),
                        (''error_type'', JStr ''UnhandledException'')],
       span_level = ''error'', span_status_message = ''error''\<rparr>]
   \<and> snd (llm_service_exception_handler langfuse_client req exc) =
     \<lparr>status_code = 500,
      body = [(''detail'', JStr ''An error occurred while calling the LLM.''),
              (''request_id'', json_opt (state_request_id req))],
      resp_headers = []\<rparr>
   \<and> snd (generic_exception_handler langfuse_client req exc) =
     \<lparr>status_code = 500,
      body = [(''detail'', JStr ''Internal server error.''),
              (''request_id'', json_opt (state_request_id req))],
      resp_headers = []\<rparr>"
  by (simp add: llm_service_exception_handler_def generic_exception_handler_def
      record_error_span_def)

section \<open>The invocation service\<close>

text \<open>
  C1. The service is to take (prompt, request id, session id, model) and put the
  request id and the session id into the metadata of the traced operation. The
  function has two parameters: the dispatcher's call with its four positional
  arguments raises \<^verbatim>\<open>TypeError\<close> for every request, and no call of the function puts a
  session id into the metadata.
\<close>

theorem dispatcher_call_rejected:
  "call_get_llm_response provider (dispatch_args fresh payload req) =
     Inl (TypeError ''get_llm_response() takes from 1 to 2 positional arguments but 4 were given'')
   \<and> map_of (gen_metadata (get_llm_response provider prompt rid)) ''session_id'' = None"
  by (simp add: dispatch_args_def call_with_four_arguments get_llm_response_def
      split: option.split)

text \<open>
  C2. For the body \<^verbatim>\<open>{message: "ping"}\<close> and a provider that answers \<^verbatim>\<open>"pong"\<close> the
  endpoint is to return 200 with the answer. The endpoint raises the \<^verbatim>\<open>TypeError\<close> of
  the call instead, and the caller gets the 500 response of the catch-all handler.
\<close>

theorem ping_pong_internal_server_error:
  "chat_endpoint (const_provider (Inr (Completion [Message (ContentStr ''pong'')]))) fresh_ep
       \<lparr>message = ''ping'', model = None, session_id = None\<rparr> req =
     Inl (TypeError ''get_llm_response() takes from 1 to 2 positional arguments but 4 were given'')
   \<and> snd (app langfuse_client (const_provider (Inr (Completion [Message (ContentStr ''pong'')])))
            fresh_mw fresh_ep \<lparr>message = ''ping'', model = None, session_id = None\<rparr>
            \<lparr>req_method = ''POST'', req_path = ''/chat'', req_headers = [],
             state_request_id = None\<rparr>) =
     \<lparr>status_code = 500,
      body = [(''detail'', JStr ''Internal server error.''), (''request_id'', JStr fresh_mw)],
      resp_headers = []\<rparr>"
  by (simp add: chat_endpoint_raises app_def add_request_id_middleware_def exception_layer_def
      chat_route_def generic_exception_handler_def headers_get_def json_opt_def)

text \<open>
  C3. String content that is empty or blank is to fail with \<open>EmptyResponse\<close>. The
  \<^verbatim>\<open>raise\<close> of that error sits inside the \<^verbatim>\<open>try\<close>, whose \<^verbatim>\<open>except Exception\<close> catches it:
  what the service raises on the empty string and on a single space is the
  \<open>MalformedResponse\<close> error, with the \<open>EmptyResponse\<close> error as its cause.
\<close>

theorem blank_string_is_malformed:
  "normalize_response (Completion [Message (ContentStr [])]) =
     Inl (MalformedResponse EmptyResponse)
   \<and> normalize_response (Completion [Message (ContentStr '' '')]) =
     Inl (MalformedResponse EmptyResponse)"
  by (simp add: normalize_response_def try_body_def py_strip_def is_space_def)

text \<open>
  C4, the claim as stated, at the sequence holding the one part \<^verbatim>\<open>{}\<close>: a \<^verbatim>\<open>dict\<close>
  with no text field, whose string conversion is \<^verbatim>\<open>"{}"\<close>. The code fails with
  \<open>EmptyResponse\<close>; with the string conversion of the whole part as the fallback the
  result would be \<^verbatim>\<open>"{}"\<close>.
\<close>

theorem dict_part_without_text_counterexample:
  "normalize_response (Completion [Message (ContentList [DictPart None ''{}''])]) =
     Inl EmptyResponse
   \<and> spec_normalize_parts [DictPart None ''{}''] = Inr ''{}''"
  by (simp add: normalize_response_def try_body_def spec_normalize_parts_def str_join_def
      py_strip_def is_space_def)

text \<open>
  C4, amended. For content that is a sequence of parts whose text fields hold
  strings or falsy values: a \<^verbatim>\<open>dict\<close> part contributes its text field, and nothing when
  it has none; any other part contributes its string conversion; the non-empty texts
  are joined by newlines and the join is returned if it is not blank; otherwise, and
  for the empty sequence, the service fails with \<open>EmptyResponse\<close>.
\<close>

theorem normalize_parts:
  assumes "list_all text_ok parts"
  shows "normalize_response (Completion (Message (ContentList parts) # rest)) =
     (if py_strip (join [CHR 0x0A] (filter (\<lambda>t. t \<noteq> []) (map part_string parts))) \<noteq> []
      then Inr (join [CHR 0x0A] (filter (\<lambda>t. t \<noteq> []) (map part_string parts)))
      else Inl EmptyResponse)"
proof (cases "parts = []")
  case True
  then show ?thesis
    by (simp add: normalize_response_def try_body_def py_strip_def)
next
  case False
  have "str_join [CHR 0x0A] (filter truthy (map part_text parts)) =
        Inr (join [CHR 0x0A] (filter (\<lambda>t. t \<noteq> []) (map part_string parts)))"
    using assms by (simp add: str_join_def filter_truthy_text as_strs_strs list_all_iff)
  with False show ?thesis
    by (simp add: normalize_response_def try_body_def)
qed

text \<open>
  C4, the examples of the claim: \<^verbatim>\<open>[{"text":"a"},{"text":"b"}]\<close> gives \<^verbatim>\<open>"a\nb"\<close>, and
  \<^verbatim>\<open>[]\<close> and \<^verbatim>\<open>[{"text":""},{"text":""}]\<close> fail with \<open>EmptyResponse\<close>.
\<close>

theorem normalize_parts_witness:
  "list_all text_ok [DictPart (Some (PyStr ''a'')) ''{'text': 'a'}'',
                     DictPart (Some (PyStr ''b'')) ''{'text': 'b'}'']
   \<and> normalize_response (Completion [Message (ContentList
        [DictPart (Some (PyStr ''a'')) ''{'text': 'a'}'',
         DictPart (Some (PyStr ''b'')) ''{'text': 'b'}''])])
      = Inr [CHR ''a'', CHR 0x0A, CHR ''b'']
   \<and> list_all text_ok []
   \<and> normalize_response (Completion [Message (ContentList [])]) = Inl EmptyResponse
   \<and> list_all text_ok [DictPart (Some (PyStr [])) (''{'text': '' @ [CHR 0x27, CHR 0x27] @ ''}''),
                        DictPart (Some (PyStr [])) (''{'text': '' @ [CHR 0x27, CHR 0x27] @ ''}'')]
   \<and> normalize_response (Completion [Message (ContentList
        [DictPart (Some (PyStr [])) (''{'text': '' @ [CHR 0x27, CHR 0x27] @ ''}''),
         DictPart (Some (PyStr [])) (''{'text': '' @ [CHR 0x27, CHR 0x27] @ ''}'')])])
      = Inl EmptyResponse"
  using
    normalize_parts [of "[DictPart (Some (PyStr ''a'')) ''{'text': 'a'}'',
                          DictPart (Some (PyStr ''b'')) ''{'text': 'b'}'']" "[]"]
    normalize_parts [of "[]" "[]"]
    normalize_parts [of "[DictPart (Some (PyStr [])) (''{'text': '' @ [CHR 0x27, CHR 0x27] @ ''}''),
                          DictPart (Some (PyStr [])) (''{'text': '' @ [CHR 0x27, CHR 0x27] @ ''}'')]" "[]"]
  by (simp add: py_strip_def is_space_def)

section \<open>The boundary\<close>

text \<open>
  C6. Every response is to carry the request id of the middleware in its
  \<^verbatim>\<open>X-Request-ID\<close> header. The endpoint raises \<^verbatim>\<open>TypeError\<close> on every request; the
  exception leaves the middleware before the line that sets the header, and the
  response of the catch-all handler reaches the caller with the id in its body and
  without the header, here for a request that came with the id \<^verbatim>\<open>abc\<close>.
\<close>

theorem catch_all_response_lacks_header:
  "headers_get (resp_headers (snd (app langfuse_client provider fresh_mw fresh_ep payload req)))
     ''X-Request-ID'' = None
   \<and> snd (app langfuse_client provider fresh_mw fresh_ep payload
         \<lparr>req_method = ''POST'', req_path = ''/chat'',
          req_headers = [(''X-Request-ID'', ''abc'')], state_request_id = None\<rparr>) =
     \<lparr>status_code = 500,
      body = [(''detail'', JStr ''Internal server error.''), (''request_id'', JStr ''abc'')],
      resp_headers = []\<rparr>"
  by (simp add: chat_endpoint_raises app_def add_request_id_middleware_def exception_layer_def
      chat_route_def generic_exception_handler_def headers_get_def json_opt_def)

text \<open>
  C7, the claim as stated, at a request whose \<^verbatim>\<open>X-Request-ID\<close> header is present and
  empty, for a path with no route, which the inner layers answer with 404: the
  response carries the generated identifier, not the header's value.
\<close>

theorem empty_request_id_header_counterexample:
  "headers_get (req_headers \<lparr>req_method = ''GET'', req_path = ''/missing'',
       req_headers = [(''X-Request-ID'', [])], state_request_id = None\<rparr>) ''X-Request-ID''
     = Some []
   \<and> response_header ''X-Request-ID''
       (snd (snd (add_request_id_middleware ''123e4567-e89b-42d3-a456-426614174000''
          \<lparr>req_method = ''GET'', req_path = ''/missing'',
           req_headers = [(''X-Request-ID'', [])], state_request_id = None\<rparr>
          (const_next (Inr \<lparr>status_code = 404, body = [(''detail'', JStr ''Not Found'')],
                             resp_headers = []\<rparr>)))))
     = Some ''123e4567-e89b-42d3-a456-426614174000''"
  by (simp add: add_request_id_middleware_def const_next_def response_header_def headers_get_def
      Let_def)

text \<open>
  C7, amended. The middleware sets the request id to the \<^verbatim>\<open>X-Request-ID\<close> header when
  it is present and non-empty, and to the generated identifier when it is absent or
  empty; the response the middleware returns carries that request id as its
  \<^verbatim>\<open>X-Request-ID\<close>: the header's value exactly, for a request with a non-empty header.
\<close>

theorem middleware_request_id:
  "(headers_get (req_headers req) ''X-Request-ID'' = Some h \<and> h \<noteq> [] \<longrightarrow>
      state_request_id (fst (add_request_id_middleware fresh req call_next)) = Some h
      \<and> (\<not> isl (snd (snd (add_request_id_middleware fresh req call_next))) \<longrightarrow>
           response_header ''X-Request-ID''
             (snd (snd (add_request_id_middleware fresh req call_next))) = Some h))
   \<and> (headers_get (req_headers req) ''X-Request-ID'' = None
        \<or> headers_get (req_headers req) ''X-Request-ID'' = Some [] \<longrightarrow>
      state_request_id (fst (add_request_id_middleware fresh req call_next)) = Some fresh
      \<and> (\<not> isl (snd (snd (add_request_id_middleware fresh req call_next))) \<longrightarrow>
           response_header ''X-Request-ID''
             (snd (snd (add_request_id_middleware fresh req call_next))) = Some fresh))"
proof (intro conjI impI)
  assume a: "headers_get (req_headers req) ''X-Request-ID'' = Some h \<and> h \<noteq> []"
  then have r: "h = (case headers_get (req_headers req) ''X-Request-ID'' of
               Some h \<Rightarrow> if h \<noteq> [] then h else fresh | None \<Rightarrow> fresh)" by simp
  show "state_request_id (fst (add_request_id_middleware fresh req call_next)) = Some h"
    by (simp add: middleware_result [OF r])
  assume "\<not> isl (snd (snd (add_request_id_middleware fresh req call_next)))"
  then show "response_header ''X-Request-ID''
             (snd (snd (add_request_id_middleware fresh req call_next))) = Some h"
    by (simp add: middleware_result [OF r] response_header_def headers_get_set_header
        split: sum.splits)
next
  assume a: "headers_get (req_headers req) ''X-Request-ID'' = None
        \<or> headers_get (req_headers req) ''X-Request-ID'' = Some []"
  then have r: "fresh = (case headers_get (req_headers req) ''X-Request-ID'' of
               Some h \<Rightarrow> if h \<noteq> [] then h else fresh | None \<Rightarrow> fresh)" by auto
  show "state_request_id (fst (add_request_id_middleware fresh req call_next)) = Some fresh"
    by (simp add: middleware_result [OF r])
  assume "\<not> isl (snd (snd (add_request_id_middleware fresh req call_next)))"
  then show "response_header ''X-Request-ID''
             (snd (snd (add_request_id_middleware fresh req call_next))) = Some fresh"
    by (simp add: middleware_result [OF r] response_header_def headers_get_set_header
        split: sum.splits)
qed

text \<open>
  C7, amended, at a request with the header \<^verbatim>\<open>abc\<close> and at a request with no header,
  both answered by the inner layers with a 404 response.
\<close>

theorem middleware_request_id_witness:
  "headers_get (req_headers \<lparr>req_method = ''GET'', req_path = ''/missing'',
       req_headers = [(''X-Request-ID'', ''abc'')], state_request_id = None\<rparr>) ''X-Request-ID''
     = Some ''abc''
   \<and> ''abc'' \<noteq> []
   \<and> \<not> isl (snd (snd (add_request_id_middleware ''123e4567-e89b-42d3-a456-426614174000''
          \<lparr>req_method = ''GET'', req_path = ''/missing'',
           req_headers = [(''X-Request-ID'', ''abc'')], state_request_id = None\<rparr>
          (const_next (Inr \<lparr>status_code = 404, body = [(''detail'', JStr ''Not Found'')],
                             resp_headers = []\<rparr>)))))
   \<and> response_header ''X-Request-ID''
       (snd (snd (add_request_id_middleware ''123e4567-e89b-42d3-a456-426614174000''
          \<lparr>req_method = ''GET'', req_path = ''/missing'',
           req_headers = [(''X-Request-ID'', ''abc'')], state_request_id = None\<rparr>
          (const_next (Inr \<lparr>status_code = 404, body = [(''detail'', JStr ''Not Found'')],
                             resp_headers = []\<rparr>)))))
     = Some ''abc''
   \<and> headers_get (req_headers \<lparr>req_method = ''GET'', req_path = ''/missing'',
       req_headers = [], state_request_id = None\<rparr>) ''X-Request-ID'' = None
   \<and> \<not> isl (snd (snd (add_request_id_middleware ''123e4567-e89b-42d3-a456-426614174000''
          \<lparr>req_method = ''GET'', req_path = ''/missing'',
           req_headers = [], state_request_id = None\<rparr>
          (const_next (Inr \<lparr>status_code = 404, body = [(''detail'', JStr ''Not Found'')],
                             resp_headers = []\<rparr>)))))
   \<and> response_header ''X-Request-ID''
       (snd (snd (add_request_id_middleware ''123e4567-e89b-42d3-a456-426614174000''
          \<lparr>req_method = ''GET'', req_path = ''/missing'',
           req_headers = [], state_request_id = None\<rparr>
          (const_next (Inr \<lparr>status_code = 404, body = [(''detail'', JStr ''Not Found'')],
                             resp_headers = []\<rparr>)))))
     = Some ''123e4567-e89b-42d3-a456-426614174000''"
proof -
  let ?u = "''123e4567-e89b-42d3-a456-426614174000''"
  let ?next = "const_next (Inr \<lparr>status_code = 404, body = [(''detail'', JStr ''Not Found'')],
                                 resp_headers = []\<rparr>)"
  let ?r1 = "\<lparr>req_method = ''GET'', req_path = ''/missing'',
              req_headers = [(''X-Request-ID'', ''abc'')], state_request_id = None\<rparr>"
  let ?r2 = "\<lparr>req_method = ''GET'', req_path = ''/missing'',
              req_headers = [], state_request_id = None\<rparr>"
  have h1: "headers_get (req_headers ?r1) ''X-Request-ID'' = Some ''abc'' \<and> ''abc'' \<noteq> []"
    by (simp add: headers_get_def)
  have h2: "headers_get (req_headers ?r2) ''X-Request-ID'' = None"
    by (simp add: headers_get_def)
  have n1: "\<not> isl (snd (snd (add_request_id_middleware ?u ?r1 ?next)))"
    by (simp add: add_request_id_middleware_def const_next_def Let_def)
  have n2: "\<not> isl (snd (snd (add_request_id_middleware ?u ?r2 ?next)))"
    by (simp add: add_request_id_middleware_def const_next_def Let_def)
  show ?thesis
    using h1 h2 n1 n2
      middleware_request_id [where req = ?r1 and h = "''abc''" and fresh = ?u
        and call_next = ?next]
      middleware_request_id [where req = ?r2 and h = "''abc''" and fresh = ?u
        and call_next = ?next]
    by simp
qed

text \<open>
  C8, the claim as stated, at a body whose \<^verbatim>\<open>session_id\<close> is supplied as the empty
  string, on a request with an \<^verbatim>\<open>X-Session-ID\<close> header: the dispatcher takes the header,
  where the field of the body, being supplied, was to win.
\<close>

theorem empty_body_session_id_counterexample:
  "resolve_session_id \<lparr>message = ''hi'', model = None, session_id = Some []\<rparr>
       \<lparr>req_method = ''POST'', req_path = ''/chat'',
        req_headers = [(''X-Session-ID'', ''s-header'')], state_request_id = Some ''abc''\<rparr>
     = Some ''s-header''
   \<and> spec_resolve_session_id \<lparr>message = ''hi'', model = None, session_id = Some []\<rparr>
       \<lparr>req_method = ''POST'', req_path = ''/chat'',
        req_headers = [(''X-Session-ID'', ''s-header'')], state_request_id = Some ''abc''\<rparr>
     = Some []"
  by (simp add: resolve_session_id_def spec_resolve_session_id_def headers_get_def)

text \<open>
  C8, amended. The dispatcher resolves the session id as the \<^verbatim>\<open>session_id\<close> of the body
  if it is supplied and non-empty, else as the \<^verbatim>\<open>X-Session-ID\<close> header, else as absent;
  when neither is supplied the third argument it passes on is \<^verbatim>\<open>None\<close>, no placeholder.
\<close>

theorem session_id_precedence:
  "(session_id payload = Some s \<and> s \<noteq> [] \<longrightarrow> resolve_session_id payload req = Some s)
   \<and> (session_id payload = None \<or> session_id payload = Some [] \<longrightarrow>
        resolve_session_id payload req = headers_get (req_headers req) ''X-Session-ID'')
   \<and> (session_id payload = None \<and> headers_get (req_headers req) ''X-Session-ID'' = None \<longrightarrow>
        resolve_session_id payload req = None
        \<and> dispatch_args fresh payload req =
            [Some (message payload), Some (endpoint_request_id fresh req), None, model payload])"
  by (auto simp: resolve_session_id_def dispatch_args_def)

text \<open>
  C8, amended, at a body with a session id and a header, at a body without one and a
  header, and at a request with neither.
\<close>

theorem session_id_precedence_witness:
  "session_id \<lparr>message = ''hi'', model = None, session_id = Some ''s-body''\<rparr> = Some ''s-body''
   \<and> ''s-body'' \<noteq> []
   \<and> resolve_session_id \<lparr>message = ''hi'', model = None, session_id = Some ''s-body''\<rparr>
       \<lparr>req_method = ''POST'', req_path = ''/chat'',
        req_headers = [(''X-Session-ID'', ''s-header'')], state_request_id = Some ''abc''\<rparr>
     = Some ''s-body''
   \<and> session_id \<lparr>message = ''hi'', model = None, session_id = None\<rparr> = None
   \<and> resolve_session_id \<lparr>message = ''hi'', model = None, session_id = None\<rparr>
       \<lparr>req_method = ''POST'', req_path = ''/chat'',
        req_headers = [(''X-Session-ID'', ''s-header'')], state_request_id = Some ''abc''\<rparr>
     = Some ''s-header''
   \<and> headers_get (req_headers \<lparr>req_method = ''POST'', req_path = ''/chat'',
        req_headers = [], state_request_id = Some ''abc''\<rparr>) ''X-Session-ID'' = None
   \<and> dispatch_args ''123e4567-e89b-42d3-a456-426614174000''
       \<lparr>message = ''hi'', model = None, session_id = None\<rparr>
       \<lparr>req_method = ''POST'', req_path = ''/chat'',
        req_headers = [], state_request_id = Some ''abc''\<rparr>
     = [Some ''hi'', Some ''abc'', None, None]"
proof -
  let ?hdr = "\<lparr>req_method = ''POST'', req_path = ''/chat'',
        req_headers = [(''X-Session-ID'', ''s-header'')], state_request_id = Some ''abc''\<rparr>"
  let ?bare = "\<lparr>req_method = ''POST'', req_path = ''/chat'',
        req_headers = [], state_request_id = Some ''abc''\<rparr>"
  have h: "headers_get (req_headers ?hdr) ''X-Session-ID'' = Some ''s-header''"
    "headers_get (req_headers ?bare) ''X-Session-ID'' = None"
    by (simp_all add: headers_get_def)
  show ?thesis
    using h
      session_id_precedence [where payload = "\<lparr>message = ''hi'', model = None,
          session_id = Some ''s-body''\<rparr>" and s = "''s-body''" and req = ?hdr]
      session_id_precedence [where payload = "\<lparr>message = ''hi'', model = None,
          session_id = None\<rparr>" and req = ?hdr]
      session_id_precedence [where payload = "\<lparr>message = ''hi'', model = None,
          session_id = None\<rparr>" and req = ?bare
          and fresh = "''123e4567-e89b-42d3-a456-426614174000''"]
    by (simp add: endpoint_request_id_def)
qed

text \<open>
  C10. A \<^verbatim>\<open>session_id\<close> supplied in the body as the empty string counts as absent: the
  dispatcher resolves the session id as the \<^verbatim>\<open>X-Session-ID\<close> header, or as absent when
  there is no such header, and passes that on.
\<close>

theorem empty_body_session_id_falls_back:
  assumes "session_id payload = Some []"
  shows "resolve_session_id payload req = headers_get (req_headers req) ''X-Session-ID''
    \<and> dispatch_args fresh payload req =
        [Some (message payload), Some (endpoint_request_id fresh req),
         headers_get (req_headers req) ''X-Session-ID'', model payload]"
  using assms by (simp add: resolve_session_id_def dispatch_args_def)

text \<open>C10 at a request with a header and at a request without one.\<close>

theorem empty_body_session_id_falls_back_witness:
  "session_id \<lparr>message = ''hi'', model = None, session_id = Some []\<rparr> = Some []
   \<and> resolve_session_id \<lparr>message = ''hi'', model = None, session_id = Some []\<rparr>
       \<lparr>req_method = ''POST'', req_path = ''/chat'',
        req_headers = [(''X-Session-ID'', ''s-header'')], state_request_id = Some ''abc''\<rparr>
     = Some ''s-header''
   \<and> resolve_session_id \<lparr>message = ''hi'', model = None, session_id = Some []\<rparr>
       \<lparr>req_method = ''POST'', req_path = ''/chat'',
        req_headers = [], state_request_id = Some ''abc''\<rparr>
     = None"
proof -
  have h: "session_id \<lparr>message = ''hi'', model = None, session_id = Some []\<rparr> = Some []"
    by simp
  show ?thesis
    using h
      empty_body_session_id_falls_back [OF h, where req = "\<lparr>req_method = ''POST'',
        req_path = ''/chat'', req_headers = [(''X-Session-ID'', ''s-header'')],
        state_request_id = Some ''abc''\<rparr>"]
      empty_body_session_id_falls_back [OF h, where req = "\<lparr>req_method = ''POST'',
        req_path = ''/chat'', req_headers = [], state_request_id = Some ''abc''\<rparr>"]
    by (simp add: headers_get_def)
qed



text \<open>
  C9. For every error that reaches the boundary, with the tracing client of the
  module: a service error is answered by the handler of service errors and any
  other exception by the catch-all handler; either records exactly one span, of
  level \<^verbatim>\<open>error\<close>, named by the category, whose input holds the path, the method and
  the request id and whose metadata holds the error's message and the category
  label, and then returns a 500 response with the body \<^verbatim>\<open>{detail, request_id}\<close>, the
  detail being the one of the category and the keys the same for both.
\<close>

theorem error_span_and_response:
  assumes "rid0 = (case headers_get (req_headers req) ''X-Request-ID'' of
               Some h \<Rightarrow> if h \<noteq> [] then h else fresh | None \<Rightarrow> fresh)"
    and "route (req\<lparr>state_request_id := Some rid0\<rparr>) = Inl exc"
  shows "boundary (Some client) fresh route req =
     (if is_service_error exc then
        ([\<lparr>span_name = ''LLMServiceError'',
           span_input = [(''path'', JStr (req_path req)), (''method'', JStr (req_method req)),
                         (''request_id'', JStr rid0)],
           span_metadata = [(''error'', JStr (exn_str exc)),
                            (''error_type'', JStr ''LLMServiceError'')],
           span_level = ''error'', span_status_message = ''error''\<rparr>],
         \<lparr>status_code = 500,
          body = [(''detail'', JStr ''An error occurred while calling the LLM.''),
                  (''request_id'', JStr rid0)],
          resp_headers = [(''X-Request-ID'', rid0)]\<rparr>)
      else
        ([\<lparr>span_name = ''UnhandledException'',
           span_input = [(''path'', JStr (req_path req)), (''method'', JStr (req_method req)),
                         (''request_id'', JStr rid0)],
           span_metadata = [(''error'', JStr (exn_str exc)),
                            (''error_type'', JStr ''UnhandledException'')],
           span_level = ''error'', span_status_message = ''error''\<rparr>],
         \<lparr>status_code = 500,
          body = [(''detail'', JStr ''Internal server error.''),
                  (''request_id'', JStr rid0)],
          resp_headers = []\<rparr>))
   \<and> map fst (body (snd (boundary (Some client) fresh route req))) =
       [''detail'', ''request_id'']"
proof (cases "is_service_error exc")
  case True
  then obtain m c where exc: "exc = LLMServiceError m c"
    by (cases exc) simp_all
  from assms(2) have "route (req\<lparr>state_request_id := Some rid0\<rparr>) = Inl (LLMServiceError m c)"
    by (simp add: exc)
  from boundary_service_error [where route = route and req = req and ?rid0.0 = rid0
      and fresh = fresh and m = m and c = c, OF assms(1) this] show ?thesis
    by (simp add: exc record_error_span_def json_opt_def)
next
  case False
  from boundary_unexpected [where route = route and req = req and ?rid0.0 = rid0
      and fresh = fresh and exc = exc, OF assms(1) assms(2) False] False show ?thesis
    by (simp add: record_error_span_def json_opt_def)
qed

text \<open>
  C9 at a route that raises a service error, and at the chat route, which raises the
  \<^verbatim>\<open>TypeError\<close> of its call, both for a request that came with the id \<^verbatim>\<open>abc\<close>.
\<close>

theorem error_span_and_response_witness:
  "const_route (Inl (CallFailed (ProviderError ''connection reset'')))
        (\<lparr>req_method = ''POST'', req_path = ''/chat'',
          req_headers = [(''X-Request-ID'', ''abc'')], state_request_id = None\<rparr>
         \<lparr>state_request_id := Some ''abc''\<rparr>)
     = Inl (CallFailed (ProviderError ''connection reset''))
   \<and> boundary (Some Langfuse) ''123e4567-e89b-42d3-a456-426614174000''
        (const_route (Inl (CallFailed (ProviderError ''connection reset''))))
        \<lparr>req_method = ''POST'', req_path = ''/chat'',
         req_headers = [(''X-Request-ID'', ''abc'')], state_request_id = None\<rparr>
     = ([\<lparr>span_name = ''LLMServiceError'',
          span_input = [(''path'', JStr ''/chat''), (''method'', JStr ''POST''),
                        (''request_id'', JStr ''abc'')],
          span_metadata = [(''error'', JStr ''Failed to call LLM via OpenRouter''),
                           (''error_type'', JStr ''LLMServiceError'')],
          span_level = ''error'', span_status_message = ''error''\<rparr>],
        \<lparr>status_code = 500,
         body = [(''detail'', JStr ''An error occurred while calling the LLM.''),
                 (''request_id'', JStr ''abc'')],
         resp_headers = [(''X-Request-ID'', ''abc'')]\<rparr>)
   \<and> chat_route (const_provider (Inr (Completion [Message (ContentStr ''pong'')])))
        ''123e4567-e89b-42d3-a456-426614174000''
        \<lparr>message = ''ping'', model = None, session_id = None\<rparr>
        (\<lparr>req_method = ''POST'', req_path = ''/chat'',
          req_headers = [(''X-Request-ID'', ''abc'')], state_request_id = None\<rparr>
         \<lparr>state_request_id := Some ''abc''\<rparr>)
     = Inl (TypeError
         ''get_llm_response() takes from 1 to 2 positional arguments but 4 were given'')
   \<and> boundary (Some Langfuse) ''123e4567-e89b-42d3-a456-426614174000''
        (chat_route (const_provider (Inr (Completion [Message (ContentStr ''pong'')])))
           ''123e4567-e89b-42d3-a456-426614174000''
           \<lparr>message = ''ping'', model = None, session_id = None\<rparr>)
        \<lparr>req_method = ''POST'', req_path = ''/chat'',
         req_headers = [(''X-Request-ID'', ''abc'')], state_request_id = None\<rparr>
     = ([\<lparr>span_name = ''UnhandledException'',
          span_input = [(''path'', JStr ''/chat''), (''method'', JStr ''POST''),
                        (''request_id'', JStr ''abc'')],
          span_metadata =
            [(''error'', JStr
               ''get_llm_response() takes from 1 to 2 positional arguments but 4 were given''),
             (''error_type'', JStr ''UnhandledException'')],
          span_level = ''error'', span_status_message = ''error''\<rparr>],
        \<lparr>status_code = 500,
         body = [(''detail'', JStr ''Internal server error.''),
                 (''request_id'', JStr ''abc'')],
         resp_headers = []\<rparr>)"
proof -
  let ?e = "CallFailed (ProviderError ''connection reset'')"
  let ?r = "\<lparr>req_method = ''POST'', req_path = ''/chat'',
             req_headers = [(''X-Request-ID'', ''abc'')], state_request_id = None\<rparr>"
  let ?u = "''123e4567-e89b-42d3-a456-426614174000''"
  let ?chat = "chat_route (const_provider (Inr (Completion [Message (ContentStr ''pong'')])))
                 ?u \<lparr>message = ''ping'', model = None, session_id = None\<rparr>"
  let ?t = "TypeError
              ''get_llm_response() takes from 1 to 2 positional arguments but 4 were given''"
  have h: "''abc'' = (case headers_get (req_headers ?r) ''X-Request-ID'' of
               Some h \<Rightarrow> if h \<noteq> [] then h else ?u | None \<Rightarrow> ?u)"
    by (simp add: headers_get_def)
  have r1: "const_route (Inl ?e) (?r\<lparr>state_request_id := Some ''abc''\<rparr>) = Inl ?e"
    by (simp add: const_route_def)
  have r2: "?chat (?r\<lparr>state_request_id := Some ''abc''\<rparr>) = Inl ?t"
    by (simp add: chat_route_def chat_endpoint_raises)
  show ?thesis
    using r1 r2
      error_span_and_response [where route = "const_route (Inl ?e)" and req = ?r
        and ?rid0.0 = "''abc''" and fresh = ?u and exc = ?e and client = Langfuse, OF h r1]
      error_span_and_response [where route = ?chat and req = ?r
        and ?rid0.0 = "''abc''" and fresh = ?u and exc = ?t and client = Langfuse, OF h r2]
    by simp
qed

end
